theory Spec2Isabelle
  imports Complex_Main "HOL-Library.Word" "HOL-Library.Multiset"
begin

section \<open>Field errors of the admission validators\<close>

text \<open>
  The validators of \<^verbatim>\<open>nodepool_validation.go\<close> return a \<^verbatim>\<open>*apis.FieldError\<close>: \<^verbatim>\<open>nil\<close>
  when nothing is wrong, otherwise the errors collected so far. The constructors are
  library calls; each is kept as a constructor carrying the arguments of the call. The
  collected errors are a list, \<^verbatim>\<open>nil\<close> being the empty list; \<^verbatim>\<open>errs.Also(e)\<close>
  adds the non-empty errors it is given and \<^verbatim>\<open>ViaField\<close> wraps every collected error.
\<close>

datatype FieldError =
    ErrInvalidValue string string
  | ErrGeneric string
  | ErrInvalidKeyName string string string
  | ErrInvalidArrayValue string string nat
  | ErrDisallowedFields string
  | ViaField FieldError string

type_synonym errs = "FieldError list"

definition Also :: "errs \<Rightarrow> errs \<Rightarrow> errs" where
  "Also errs more = errs @ more"

definition via_field :: "errs \<Rightarrow> string \<Rightarrow> errs" where
  "via_field errs field = map (\<lambda>e. ViaField e field) errs"

section \<open>Disruption policy and its validation\<close>

text \<open>
  \<^verbatim>\<open>time.Duration\<close> is a signed 64-bit count of nanoseconds. A \<^verbatim>\<open>NillableDuration\<close>
  holds a pointer to one: \<^verbatim>\<open>nil\<close> is the literal \<^verbatim>\<open>Never\<close>.
\<close>

record NillableDuration =
  Duration :: "64 word option"

type_synonym ConsolidationPolicy = string

definition ConsolidationPolicyWhenEmpty :: ConsolidationPolicy where
  "ConsolidationPolicyWhenEmpty = ''WhenEmpty''"

definition ConsolidationPolicyWhenUnderutilized :: ConsolidationPolicy where
  "ConsolidationPolicyWhenUnderutilized = ''WhenUnderutilized''"

record Disruption =
  ConsolidateAfter :: "NillableDuration option"
  ConsolidationPolicy :: ConsolidationPolicy
  ExpireAfter :: NillableDuration

text \<open>\<^verbatim>\<open>p != nil && *p < 0\<close> on a \<^verbatim>\<open>*time.Duration\<close>.\<close>

definition is_negative :: "64 word option \<Rightarrow> bool" where
  "is_negative p = (case p of None \<Rightarrow> False | Some d \<Rightarrow> sint d < 0)"

text \<open>\<^verbatim>\<open>in.ConsolidateAfter != nil && in.ConsolidateAfter.Duration != nil\<close>\<close>

definition has_duration :: "NillableDuration option \<Rightarrow> bool" where
  "has_duration c = (case c of None \<Rightarrow> False | Some n \<Rightarrow> Duration n \<noteq> None)"

definition consolidate_negative :: "NillableDuration option \<Rightarrow> bool" where
  "consolidate_negative c = (case c of None \<Rightarrow> False | Some n \<Rightarrow> is_negative (Duration n))"

definition Disruption_validate :: "Disruption \<Rightarrow> errs" where
  "Disruption_validate d =
     (if is_negative (Duration (ExpireAfter d))
      then Also [] [ErrInvalidValue ''cannot be negative'' ''expirationTTL'']
      else if consolidate_negative (ConsolidateAfter d)
      then Also [] [ErrInvalidValue ''cannot be negative'' ''consolidationTTL'']
      else if has_duration (ConsolidateAfter d)
              \<and> ConsolidationPolicy d = ConsolidationPolicyWhenUnderutilized
      then Also [] [ErrGeneric
        ''consolidateAfter cannot be combined with consolidationPolicy=WhenUnderutilized'']
      else if ConsolidateAfter d = None \<and> ConsolidationPolicy d = ConsolidationPolicyWhenEmpty
      then Also [] [ErrGeneric
        ''consolidateAfter must be specified with consolidationPolicy=WhenEmpty'']
      else [])"

text \<open>
  The admission rule in the words of the specification: a duration is negative, or
  \<^verbatim>\<open>ConsolidateAfter\<close> is set while the policy is not \<^verbatim>\<open>WhenEmpty\<close>, or it is unset
  while the policy is \<^verbatim>\<open>WhenEmpty\<close>.
\<close>

definition spec_admission_violated :: "Disruption \<Rightarrow> bool" where
  "spec_admission_violated d =
     (is_negative (Duration (ExpireAfter d))
      \<or> consolidate_negative (ConsolidateAfter d)
      \<or> (ConsolidateAfter d \<noteq> None \<and> ConsolidationPolicy d \<noteq> ConsolidationPolicyWhenEmpty)
      \<or> (ConsolidateAfter d = None \<and> ConsolidationPolicy d = ConsolidationPolicyWhenEmpty))"

section \<open>Limits\<close>

text \<open>
  A \<^verbatim>\<open>resource.Quantity\<close> is an exact decimal number and \<^verbatim>\<open>Cmp\<close> compares two of them
  as numbers: a quantity is a rational. A \<^verbatim>\<open>v1.ResourceList\<close> is a Go map from resource
  names to quantities. \<^verbatim>\<open>Limits\<close> may be \<^verbatim>\<open>nil\<close>, which is \<open>None\<close>. \<^verbatim>\<open>range\<close> visits
  the entries of \<^verbatim>\<open>resources\<close> in an order Go does not fix, so the argument is the list
  of its entries in the order of one iteration.
\<close>

type_synonym Quantity = rat

type_synonym Limits = "(string \<rightharpoonup> Quantity) option"

datatype limit_error =
  ExceedsLimit string Quantity Quantity
  \<comment> \<open>\<^verbatim>\<open>"%s resource usage of %v exceeds limit of %v"\<close>: resource name, usage, limit\<close>

fun range_resources :: "(string \<rightharpoonup> Quantity) \<Rightarrow> (string \<times> Quantity) list \<Rightarrow> limit_error option" where
  "range_resources l [] = None"
| "range_resources l ((resourceName, usage) # rest) =
     (case l resourceName of
        Some limit \<Rightarrow>
          if usage > limit then Some (ExceedsLimit resourceName usage limit)
          else range_resources l rest
      | None \<Rightarrow> range_resources l rest)"

definition ExceededBy :: "Limits \<Rightarrow> (string \<times> Quantity) list \<Rightarrow> limit_error option" where
  "ExceededBy l resources =
     (case l of None \<Rightarrow> None | Some lm \<Rightarrow> range_resources lm resources)"

section \<open>Node-claim templates and their validation\<close>

text \<open>
  \<^verbatim>\<open>NodePoolLabelKey\<close> is declared with the labels of the package. Of the node-claim
  spec the validators of this file read the requirements and the resource requests.
  A Go map that is ranged over is the list of its entries in iteration order.
\<close>

definition NodePoolLabelKey :: string where
  "NodePoolLabelKey = ''karpenter.sh/nodepool''"

record Requirement =
  Key :: string
  Operator :: string
  Values :: "string list"

record NodeClaimSpec =
  Requirements :: "Requirement list"
  Requests :: "(string \<times> Quantity) list"

record ObjectMeta =
  Labels :: "(string \<times> string) list"
  Annotations :: "(string \<times> string) list"

record NodeClaimTemplate = ObjectMeta +
  Spec :: NodeClaimSpec

text \<open>
  \<^verbatim>\<open>validation.IsQualifiedName\<close> and \<^verbatim>\<open>validation.IsValidLabelValue\<close> (each returns the
  list of its complaints) and \<^verbatim>\<open>IsRestrictedLabel\<close> (an error or \<^verbatim>\<open>nil\<close>) are not part of
  this file: \<open>validateLabels\<close> takes them as parameters.
\<close>

record label_checks =
  IsQualifiedName :: "string \<Rightarrow> string list"
  IsValidLabelValue :: "string \<Rightarrow> string list"
  IsRestrictedLabel :: "string \<Rightarrow> string option"

definition validate_label :: "label_checks \<Rightarrow> string \<times> string \<Rightarrow> errs \<Rightarrow> errs" where
  "validate_label lc kv errs =
     (let key = fst kv; val = snd kv;
          errs1 = (if key = NodePoolLabelKey
                   then Also errs [ErrInvalidKeyName key ''labels'' ''restricted'']
                   else errs);
          errs2 = fold (\<lambda>err e. Also e [ErrInvalidKeyName key ''labels'' err])
                    (IsQualifiedName lc key) errs1;
          errs3 = fold (\<lambda>err e. Also e
                      [ErrInvalidValue (val @ '', '' @ err) (''labels['' @ key @ '']'')])
                    (IsValidLabelValue lc val) errs2
      in case IsRestrictedLabel lc key of
           Some err \<Rightarrow> Also errs3 [ErrInvalidKeyName key ''labels'' err]
         | None \<Rightarrow> errs3)"

definition validateLabels :: "label_checks \<Rightarrow> NodeClaimTemplate \<Rightarrow> errs" where
  "validateLabels lc t = fold (validate_label lc) (Labels t) []"

fun requirements_loop :: "nat \<Rightarrow> Requirement list \<Rightarrow> errs \<Rightarrow> errs" where
  "requirements_loop i [] errs = errs"
| "requirements_loop i (requirement # rest) errs =
     requirements_loop (Suc i) rest
       (if Key requirement = NodePoolLabelKey
        then Also errs [ErrInvalidArrayValue (Key requirement @ '' is restricted'') ''requirements'' i]
        else errs)"

definition validateRequirementsNodePoolKeyDoesNotExist :: "NodeClaimTemplate \<Rightarrow> errs" where
  "validateRequirementsNodePoolKeyDoesNotExist t = requirements_loop 0 (Requirements (Spec t)) []"

text \<open>
  \<^verbatim>\<open>NodeClaimTemplate.validate\<close>; the validation of the node-claim spec itself lives in
  another file and is the parameter \<open>Spec_validate\<close>.
\<close>

definition NodeClaimTemplate_validate ::
  "label_checks \<Rightarrow> (NodeClaimSpec \<Rightarrow> errs) \<Rightarrow> NodeClaimTemplate \<Rightarrow> errs" where
  "NodeClaimTemplate_validate lc Spec_validate t =
     (let errs = (if length (Requests (Spec t)) > 0
                  then Also [] [ErrDisallowedFields ''resources.requests'']
                  else [])
      in Also errs
           (via_field (validateLabels lc t) ''metadata''
            @ via_field (validateRequirementsNodePoolKeyDoesNotExist t) ''spec.requirements''
            @ via_field (Spec_validate (Spec t)) ''spec''))"

text \<open>A template with the given labels and requirements and nothing else, for concrete runs.\<close>

definition template :: "(string \<times> string) list \<Rightarrow> Requirement list \<Rightarrow> NodeClaimTemplate" where
  "template ls rs =
     \<lparr>Labels = ls, Annotations = [], Spec = \<lparr>Requirements = rs, Requests = []\<rparr>\<rparr>"

text \<open>
  Instances of the library checks for a concrete run. \<^verbatim>\<open>validation.IsQualifiedName\<close>
  rejects a key whose name part is empty; \<open>rejects_empty_name\<close> keeps that one rule and
  accepts every other key, and the other two checks accept everything.
\<close>

definition rejects_empty_name :: label_checks where
  "rejects_empty_name =
     \<lparr>IsQualifiedName = (\<lambda>key. if key = [] then [''name part must be non-empty''] else []),
      IsValidLabelValue = (\<lambda>val. []),
      IsRestrictedLabel = (\<lambda>key. None)\<rparr>"

section \<open>Node pools\<close>

record NodePoolStatus =
  Resources :: "(string \<times> Quantity) list"

record NodePoolSpec =
  Template :: NodeClaimTemplate
  Disruption :: Disruption
  Limits :: Limits
  Weight :: "32 word option"

text \<open>Of the embedded \<^verbatim>\<open>metav1.ObjectMeta\<close> the object name and its maps are kept.\<close>

record NodePool =
  Name :: string
  Metadata :: ObjectMeta
  Spec :: NodePoolSpec
  Status :: NodePoolStatus

record NodePoolList =
  Items :: "NodePool list"

subsection \<open>Hash\<close>

text \<open>
  \<^verbatim>\<open>hashstructure.Hash\<close> with the options of the call is a library function from the
  value it is given to an error or an unsigned 64-bit hash: a parameter of the model.
  \<^verbatim>\<open>lo.Must\<close> panics on the error, which is the \<open>Inl\<close> result, and \<^verbatim>\<open>fmt.Sprint\<close> prints
  the hash in decimal.
\<close>

function Sprint :: "nat \<Rightarrow> string" where
  "Sprint n =
     (if n < 10 then [char_of (48 + n)]
      else Sprint (n div 10) @ [char_of (48 + n mod 10)])"
  by pat_completeness auto
termination
  by (relation "measure (\<lambda>n. n)") auto

declare Sprint.simps [simp del]

definition Hash :: "(NodeClaimTemplate \<Rightarrow> string + 64 word) \<Rightarrow> NodePool \<Rightarrow> string + string" where
  "Hash hashstructure_Hash np =
     (case hashstructure_Hash (Template (Spec np)) of
        Inl err \<Rightarrow> Inl err
      | Inr h \<Rightarrow> Inr (Sprint (unat h)))"

subsection \<open>OrderByWeight\<close>

text \<open>\<^verbatim>\<open>ptr.Int32Value\<close>: the value pointed to, 0 for \<^verbatim>\<open>nil\<close>.\<close>

definition Int32Value :: "32 word option \<Rightarrow> 32 word" where
  "Int32Value p = (case p of None \<Rightarrow> 0 | Some v \<Rightarrow> v)"

text \<open>The closure given to \<^verbatim>\<open>sort.Slice\<close>, on the items at the two indices; \<^verbatim>\<open>int32\<close> is signed.\<close>

definition weight_less :: "NodePool \<Rightarrow> NodePool \<Rightarrow> bool" where
  "weight_less a b = (sint (Int32Value (Weight (Spec a))) > sint (Int32Value (Weight (Spec b))))"

text \<open>
  \<^verbatim>\<open>sort.Slice\<close> is Go's library sort. On a slice of at most 12 elements it runs its
  insertion sort,
  \<^verbatim>\<open>for i := a + 1; i < b; i++ { for j := i; j > a && less(j, j-1); j-- { swap(j, j-1) } }\<close>,
  which is the model: \<open>sift\<close> is the inner loop, on the already sorted prefix held in
  reverse (its head is the element at \<open>j - 1\<close>), and \<open>sort_Slice\<close> the outer loop.
\<close>

fun sift :: "('a \<Rightarrow> 'a \<Rightarrow> bool) \<Rightarrow> 'a \<Rightarrow> 'a list \<Rightarrow> 'a list" where
  "sift lt x [] = [x]"
| "sift lt x (y # ys) = (if lt x y then y # sift lt x ys else x # y # ys)"

definition sort_Slice :: "('a \<Rightarrow> 'a \<Rightarrow> bool) \<Rightarrow> 'a list \<Rightarrow> 'a list" where
  "sort_Slice lt xs = rev (fold (sift lt) xs [])"

definition OrderByWeight :: "NodePoolList \<Rightarrow> NodePoolList" where
  "OrderByWeight pl = pl\<lparr>Items := sort_Slice weight_less (Items pl)\<rparr>"

text \<open>
  The order the specification describes: weight descending, ties by ascending object
  name, a \<^verbatim>\<open>nil\<close> weight counting as 0. Go compares strings bytewise.
\<close>

definition weight_of :: "NodePool \<Rightarrow> int" where
  "weight_of np = sint (Int32Value (Weight (Spec np)))"

fun string_le :: "string \<Rightarrow> string \<Rightarrow> bool" where
  "string_le [] t = True"
| "string_le (c # s) [] = False"
| "string_le (c # s) (d # t) =
     ((of_char c :: nat) < of_char d \<or> (c = d \<and> string_le s t))"

definition weight_then_name :: "NodePool \<Rightarrow> NodePool \<Rightarrow> bool" where
  "weight_then_name a b =
     (weight_of a > weight_of b
      \<or> (weight_of a = weight_of b \<and> string_le (Name a) (Name b)))"

definition ordered_by_weight_then_name :: "NodePool list \<Rightarrow> bool" where
  "ordered_by_weight_then_name xs = sorted_wrt weight_then_name xs"

text \<open>A node pool with the given name and weight and nothing else set, for concrete runs.\<close>

definition pool :: "string \<Rightarrow> 32 word option \<Rightarrow> NodePool" where
  "pool n w =
     \<lparr>Name = n, Metadata = \<lparr>Labels = [], Annotations = []\<rparr>,
      Spec = \<lparr>Template = \<lparr>Labels = [], Annotations = [],
                  NodeClaimTemplate.Spec = \<lparr>Requirements = [], Requests = []\<rparr>\<rparr>,
              Disruption = \<lparr>ConsolidateAfter = None,
                  ConsolidationPolicy = ''WhenUnderutilized'',
                  ExpireAfter = \<lparr>Duration = None\<rparr>\<rparr>,
              Limits = None, Weight = w\<rparr>,
      Status = \<lparr>Resources = []\<rparr>\<rparr>"

text \<open>A stand-in for the library hash in concrete runs: the number of template labels.\<close>

definition label_count_hash :: "NodeClaimTemplate \<Rightarrow> string + 64 word" where
  "label_count_hash t = Inr (of_nat (length (Labels t)))"


section \<open>The webhook health probe\<close>

text \<open>
  \<^verbatim>\<open>http.Get\<close> either fails at the connection level or yields a response, of which the
  checker reads the status code only. The GET is a parameter of the model, from the
  webhook port to its outcome.
\<close>

record Response =
  StatusCode :: int

datatype probe_error =
    ConnectionError string
  | ProbeFailed int

definition HealthProbe :: "(nat \<Rightarrow> string + Response) \<Rightarrow> nat \<Rightarrow> probe_error option" where
  "HealthProbe http_get WebhookPort =
     (case http_get WebhookPort of
        Inl err \<Rightarrow> Some (ConnectionError err)
      | Inr res \<Rightarrow>
          if StatusCode res \<ge> 500 \<or> StatusCode res = 404
          then Some (ProbeFailed (StatusCode res))
          else None)"

section \<open>The pod metrics controller\<close>

text \<open>
  The API client's \<^verbatim>\<open>Get\<close> either fills the object or returns an error;
  \<^verbatim>\<open>errors.IsNotFound\<close> tells the not-found error from every other one and
  \<^verbatim>\<open>client.IgnoreNotFound\<close> turns it into \<^verbatim>\<open>nil\<close>.
\<close>

datatype client_error =
    NotFound string
  | ApiError string

definition IsNotFound :: "client_error \<Rightarrow> bool" where
  "IsNotFound err = (case err of NotFound _ \<Rightarrow> True | ApiError _ \<Rightarrow> False)"

definition IgnoreNotFound :: "client_error \<Rightarrow> client_error option" where
  "IgnoreNotFound err = (if IsNotFound err then None else Some err)"

record NamespacedName =
  Namespace :: string
  Name :: string

text \<open>\<^verbatim>\<open>NamespacedName.String()\<close> joins namespace and name with a slash.\<close>

definition NamespacedName_String :: "NamespacedName \<Rightarrow> string" where
  "NamespacedName_String n = NamespacedName.Namespace n @ ''/'' @ NamespacedName.Name n"

record OwnerReference =
  APIVersion :: string
  Kind :: string
  Name :: string

record PodCondition =
  Type :: string
  LastTransitionTime :: int

record Pod =
  Name :: string
  Namespace :: string
  OwnerReferences :: "OwnerReference list"
  NodeName :: string
  Phase :: string
  Conditions :: "PodCondition list"
  CreationTimestamp :: int

record Node =
  Labels :: "(string \<times> string) list"

record kubeClient =
  Get_Pod :: "NamespacedName \<Rightarrow> client_error + Pod"
  Get_Node :: "string \<Rightarrow> client_error + Node"

record Result =
  Requeue :: bool
  RequeueAfter :: int

record StoreMetric =
  Value :: int
  MetricLabels :: "(string \<times> string) list"

text \<open>
  The controller's state. \<^verbatim>\<open>metrics.Store\<close> keeps the metrics published per key:
  \<^verbatim>\<open>Update\<close> replaces the entry of a key and \<^verbatim>\<open>Delete\<close> drops it. \<^verbatim>\<open>pendingPods\<close> is a set
  of keys. The package-level \<^verbatim>\<open>podStartupTimeSummary\<close> is the list of the durations
  observed so far, in nanoseconds.
\<close>

record Controller =
  metricStore :: "string \<rightharpoonup> StoreMetric list"
  pendingPods :: "string set"
  podStartupTimeSummary :: "int list"

definition phasePending :: string where
  "phasePending = ''Pending''"

definition PodReady :: string where
  "PodReady = ''Ready''"

definition ObjectKeyFromObject :: "Pod \<Rightarrow> NamespacedName" where
  "ObjectKeyFromObject pod =
     \<lparr>NamespacedName.Namespace = Pod.Namespace pod, NamespacedName.Name = Pod.Name pod\<rparr>"

text \<open>
  \<^verbatim>\<open>strings.ToLower\<close> on the bytes of an ASCII string, which the kinds of API objects are.
\<close>

definition ToLower :: "string \<Rightarrow> string" where
  "ToLower s = map (\<lambda>c. if 65 \<le> (of_char c :: nat) \<and> (of_char c :: nat) \<le> 90
                          then char_of ((of_char c :: nat) + 32) else c) s"

text \<open>Indexing a Go map of strings yields the empty string for a missing key.\<close>

definition label_of :: "(string \<times> string) list \<Rightarrow> string \<Rightarrow> string" where
  "label_of labels key = (case map_of labels key of None \<Rightarrow> [] | Some v \<Rightarrow> v)"

definition selflink_of :: "Pod \<Rightarrow> string" where
  "selflink_of pod =
     (case OwnerReferences pod of
        [] \<Rightarrow> []
      | owner # _ \<Rightarrow>
          ''/apis/'' @ APIVersion owner @ ''/namespaces/'' @ Pod.Namespace pod @ ''/''
          @ ToLower (Kind owner) @ ''s/'' @ OwnerReference.Name owner)"

text \<open>
  \<^verbatim>\<open>makeLabels\<close>: the host labels are read from the pod's node, which stays the empty
  node when the pod has no node name or the node is not found.
\<close>

definition host_labels :: "Pod \<Rightarrow> Node \<Rightarrow> (string \<times> string) list" where
  "host_labels pod node =
     [(''name'', Pod.Name pod),
      (''namespace'', Pod.Namespace pod),
      (''owner'', selflink_of pod),
      (''node'', NodeName pod),
      (''phase'', Phase pod),
      (''zone'', label_of (Node.Labels node) ''topology.kubernetes.io/zone''),
      (''arch'', label_of (Node.Labels node) ''kubernetes.io/arch''),
      (''capacity_type'', label_of (Node.Labels node) ''karpenter.sh/capacity-type''),
      (''instance_type'', label_of (Node.Labels node) ''node.kubernetes.io/instance-type''),
      (''provisioner'', label_of (Node.Labels node) ''karpenter.sh/provisioner-name''),
      (''nodepool'', label_of (Node.Labels node) NodePoolLabelKey)]"

definition makeLabels :: "kubeClient \<Rightarrow> Pod \<Rightarrow> client_error + (string \<times> string) list" where
  "makeLabels c pod =
     (if NodeName pod \<noteq> []
      then (case Get_Node c (NodeName pod) of
              Inl err \<Rightarrow>
                (case IgnoreNotFound err of
                   Some e \<Rightarrow> Inl e
                 | None \<Rightarrow> Inr (host_labels pod \<lparr>Labels = []\<rparr>))
            | Inr node \<Rightarrow> Inr (host_labels pod node))
      else Inr (host_labels pod \<lparr>Labels = []\<rparr>))"

definition recordPodStartupMetric :: "Pod \<Rightarrow> Controller \<Rightarrow> Controller" where
  "recordPodStartupMetric pod c =
     (let key = NamespacedName_String (ObjectKeyFromObject pod)
      in if Phase pod = phasePending
         then c\<lparr>pendingPods := insert key (pendingPods c)\<rparr>
         else (case find (\<lambda>cond. Type cond = PodReady) (Conditions pod) of
                 Some cond \<Rightarrow>
                   if key \<in> pendingPods c
                   then c\<lparr>podStartupTimeSummary :=
                            podStartupTimeSummary c
                            @ [LastTransitionTime cond - CreationTimestamp pod],
                          pendingPods := pendingPods c - {key}\<rparr>
                   else c
               | None \<Rightarrow> c))"

definition Reconcile ::
  "kubeClient \<Rightarrow> Controller \<Rightarrow> NamespacedName \<Rightarrow> Controller \<times> Result \<times> client_error option" where
  "Reconcile k c req =
     (case Get_Pod k req of
        Inl err \<Rightarrow>
          ((if IsNotFound err
            then c\<lparr>pendingPods := pendingPods c - {NamespacedName_String req},
                   metricStore := (metricStore c)(NamespacedName_String req := None)\<rparr>
            else c),
           \<lparr>Requeue = False, RequeueAfter = 0\<rparr>, IgnoreNotFound err)
      | Inr pod \<Rightarrow>
          (case makeLabels k pod of
             Inl err \<Rightarrow> (c, \<lparr>Requeue = False, RequeueAfter = 0\<rparr>, Some err)
           | Inr labels \<Rightarrow>
               (recordPodStartupMetric pod
                  (c\<lparr>metricStore := (metricStore c)
                       (NamespacedName_String (ObjectKeyFromObject pod) \<mapsto>
                          [\<lparr>Value = 1, MetricLabels = labels\<rparr>])\<rparr>),
                \<lparr>Requeue = False, RequeueAfter = 0\<rparr>, None)))"

text \<open>Two API clients for concrete runs: one whose pods are gone, one that is unreachable.\<close>

definition gone :: kubeClient where
  "gone = \<lparr>Get_Pod = (\<lambda>n. Inl (NotFound ''pod web not found'')),
          Get_Node = (\<lambda>n. Inl (NotFound ''no node''))\<rparr>"

definition broken :: kubeClient where
  "broken = \<lparr>Get_Pod = (\<lambda>n. Inl (ApiError ''connection refused'')),
          Get_Node = (\<lambda>n. Inl (NotFound ''no node''))\<rparr>"

section \<open>The disruption engine and its queue\<close>

text \<open>
  The disruption controller and its queue are exercised by \<^verbatim>\<open>drift_test.go\<close>; their
  own code belongs to packages outside this development. This section models them
  from the design document, sections 4.6, 4.7 and 5, and from the scenarios and
  boundaries of its section 8. What the document leaves open is a parameter of the
  engine: when the methods other than drift are due, the disruption budgets, the
  scheduling simulation that validates a candidate, how the launch of a replacement
  ends, and whether a replacement of a command that failed is left behind as a
  node-claim.
\<close>

text \<open>
  Modelled from the spec: the annotation key \<^verbatim>\<open>DoNotDisruptAnnotationKey\<close>, declared with
  the labels of the API package; the tests name it \<^verbatim>\<open>karpenter.sh/do-not-disrupt\<close>.
\<close>

definition DoNotDisruptAnnotationKey :: string where
  "DoNotDisruptAnnotationKey = ''karpenter.sh/do-not-disrupt''"

text \<open>
  Modelled from the spec: the test for "bearing the do-not-disrupt annotation" on the
  annotations of a pod or a node.
\<close>

definition do_not_disrupt :: "(string \<times> string) list \<Rightarrow> bool" where
  "do_not_disrupt annotations = (DoNotDisruptAnnotationKey \<in> set (map fst annotations))"

text \<open>Modelled from the spec: a pod bound to a node, as cluster state sees it.\<close>

record StatePod =
  podName :: string
  podAnnotations :: "(string \<times> string) list"

text \<open>
  Modelled from the spec: the StateNode record of cluster state, one per node-claim
  with its matching node: the node's annotations and bound pods, the Initialized flag,
  the marked-for-deletion flag, the Drifted status condition and the disruption
  (cordon) taint.
\<close>

record StateNode =
  nodeClaimName :: string
  nodeName :: string
  nodeAnnotations :: "(string \<times> string) list"
  pods :: "StatePod list"
  initialized :: bool
  markedForDeletion :: bool
  drifted :: bool
  disruptionTaint :: bool

text \<open>Modelled from the spec: the disruption methods, in their strict priority order.\<close>

datatype Method = Expiration | Drift | Emptiness | Consolidation

text \<open>
  Modelled from the spec: a candidate as a command carries it: the name of the old
  node-claim and the pods its node had when the action was validated, against which
  the abort rule compares at execution.
\<close>

record Candidate =
  candidateName :: string
  candidatePods :: "StatePod list"

text \<open>
  Modelled from the spec: the commands of the disruption queue, \<^verbatim>\<open>Delete\<close> and
  \<^verbatim>\<open>Replace{old, new}\<close>: the old candidates and the names of the new node-claims.
\<close>

datatype Command =
    Delete "Candidate list"
  | Replace "Candidate list" "string list"

text \<open>
  Modelled from the spec: how the launch of a replacement node-claim ends: it reaches
  Initialized, the cloud provider rejects its creation, or the wait times out.
\<close>

datatype LaunchOutcome = ReachedInitialized | CreateRejected | TimedOut

text \<open>
  Modelled from the spec: the surroundings of the engine: the Drift feature gate, when
  a method other than drift is due for a node-claim, the disruption budgets of the
  node pools, the scheduling simulation (the replacement node-claims that let every
  pod of the candidate find a home, or \<open>None\<close> when some pod cannot be rescheduled),
  the outcome of launching a replacement and, for a replacement of a failed command,
  whether it is left behind as a node-claim (the document says that one whose
  creation was rejected is removed, and nothing about the others).
\<close>

record Engine =
  driftGate :: bool
  due :: "Method \<Rightarrow> StateNode \<Rightarrow> bool"
  withinBudget :: "StateNode list \<Rightarrow> StateNode \<Rightarrow> bool"
  simulate :: "Method \<Rightarrow> StateNode list \<Rightarrow> StateNode \<Rightarrow> string list option"
  launch :: "string \<Rightarrow> LaunchOutcome"
  leftBehind :: "string \<Rightarrow> bool"

text \<open>Modelled from the spec: cluster state together with the FIFO of commands.\<close>

record DisruptionState =
  cluster :: "StateNode list"
  queue :: "Command list"

text \<open>Modelled from the spec: a node "hosting a do-not-disrupt pod".\<close>

definition hosts_do_not_disrupt_pod :: "StateNode \<Rightarrow> bool" where
  "hosts_do_not_disrupt_pod n = list_ex (\<lambda>p. do_not_disrupt (podAnnotations p)) (pods n)"

text \<open>
  Modelled from the spec: the nodes of the invariant "no node with a do-not-disrupt
  annotation or hosting a do-not-disrupt pod ever enters Terminating via the
  Disruption Engine".
\<close>

definition protected :: "StateNode \<Rightarrow> bool" where
  "protected n = (do_not_disrupt (nodeAnnotations n) \<or> hosts_do_not_disrupt_pod n)"

text \<open>
  Modelled from the spec: candidate eligibility, for all methods: the node is
  Initialized, is not already marked for deletion, has no pod bearing the
  do-not-disrupt annotation, has no do-not-disrupt annotation itself, and respects
  the disruption budgets.
\<close>

definition eligible :: "Engine \<Rightarrow> StateNode list \<Rightarrow> StateNode \<Rightarrow> bool" where
  "eligible E cl n =
     (initialized n \<and> \<not> markedForDeletion n \<and> \<not> hosts_do_not_disrupt_pod n
      \<and> \<not> do_not_disrupt (nodeAnnotations n) \<and> withinBudget E cl n)"

text \<open>
  Modelled from the spec: which node-claims a method picks. Drift picks those whose
  status condition Drifted is true, and with the feature gate off "Drifted=True nodes
  are ignored by the engine".
\<close>

definition method_selects :: "Engine \<Rightarrow> Method \<Rightarrow> StateNode \<Rightarrow> bool" where
  "method_selects E m n =
     (case m of Drift \<Rightarrow> driftGate E \<and> drifted n | _ \<Rightarrow> due E m n)"

text \<open>Modelled from the spec: the old candidates of a command.\<close>

definition old_candidates :: "Command \<Rightarrow> Candidate list" where
  "old_candidates cmd = (case cmd of Delete olds \<Rightarrow> olds | Replace olds news \<Rightarrow> olds)"

text \<open>Modelled from the spec: the old node-claims a command disrupts, by name.\<close>

definition old_names :: "Command \<Rightarrow> string list" where
  "old_names cmd = map candidateName (old_candidates cmd)"

text \<open>
  Modelled from the spec: "at most one disruption command per node-claim is in flight":
  whether a queued command already disrupts the node-claim.
\<close>

definition in_flight :: "Command list \<Rightarrow> StateNode \<Rightarrow> bool" where
  "in_flight q n = list_ex (\<lambda>cmd. nodeClaimName n \<in> set (old_names cmd)) q"

text \<open>Modelled from the spec: the candidates of a method in a snapshot of cluster state.\<close>

definition candidates :: "Engine \<Rightarrow> Method \<Rightarrow> StateNode list \<Rightarrow> StateNode list" where
  "candidates E m cl = filter (\<lambda>n. eligible E cl n \<and> method_selects E m n) cl"

text \<open>Modelled from the spec: the candidate a command records for a node.\<close>

definition candidate_of :: "StateNode \<Rightarrow> Candidate" where
  "candidate_of n = \<lparr>candidateName = nodeClaimName n, candidatePods = pods n\<rparr>"

text \<open>
  Modelled from the spec: validation and wrapping of an approved action. Beyond
  Emptiness the action is admitted only if the simulation finds every evicted pod a
  home; without replacements it is a Delete, with replacements a Replace.
\<close>

definition command_for :: "Engine \<Rightarrow> Method \<Rightarrow> StateNode list \<Rightarrow> StateNode \<Rightarrow> Command option" where
  "command_for E m cl n =
     (if m = Emptiness then Some (Delete [candidate_of n])
      else (case simulate E m cl n of
              None \<Rightarrow> None
            | Some [] \<Rightarrow> Some (Delete [candidate_of n])
            | Some news \<Rightarrow> Some (Replace [candidate_of n] news)))"

text \<open>
  Modelled from the spec: one method of a tick: the commands of its candidates are
  pushed to the queue, a candidate that is already in flight being skipped.
\<close>

fun method_commands ::
  "Engine \<Rightarrow> Method \<Rightarrow> StateNode list \<Rightarrow> Command list \<Rightarrow> StateNode list \<Rightarrow> Command list" where
  "method_commands E m cl q [] = q"
| "method_commands E m cl q (n # ns) =
     method_commands E m cl
       (if in_flight q n then q
        else (case command_for E m cl n of None \<Rightarrow> q | Some cmd \<Rightarrow> q @ [cmd]))
       ns"

text \<open>Modelled from the spec: "runs methods in strict priority order on every tick".\<close>

definition methods :: "Method list" where
  "methods = [Expiration, Drift, Emptiness, Consolidation]"

text \<open>
  Modelled from the spec: a tick of the disruption engine, on a consistent snapshot of
  cluster state.
\<close>

definition Engine_Reconcile :: "Engine \<Rightarrow> DisruptionState \<Rightarrow> DisruptionState" where
  "Engine_Reconcile E st =
     st\<lparr>queue := fold (\<lambda>m q. method_commands E m (cluster st) q (candidates E m (cluster st)))
                    methods (queue st)\<rparr>"

text \<open>
  Modelled from the spec: the commands a tick issues: those it pushes behind the
  commands that were queued before.
\<close>

definition issued :: "Engine \<Rightarrow> DisruptionState \<Rightarrow> Command list" where
  "issued E st = drop (length (queue st)) (queue (Engine_Reconcile E st))"

text \<open>
  Modelled from the spec: step (a) of a command, "mark old nodes for deletion in
  Cluster State (cordoning them for the Scheduler)".
\<close>

definition mark_for_deletion :: "string list \<Rightarrow> StateNode list \<Rightarrow> StateNode list" where
  "mark_for_deletion olds cl =
     map (\<lambda>n. if nodeClaimName n \<in> set olds
               then n\<lparr>markedForDeletion := True, disruptionTaint := True\<rparr> else n) cl"

text \<open>
  Modelled from the spec: "untaint the old nodes", which undoes step (a) so that nodes
  are never left cordoned.
\<close>

definition untaint :: "string list \<Rightarrow> StateNode list \<Rightarrow> StateNode list" where
  "untaint olds cl =
     map (\<lambda>n. if nodeClaimName n \<in> set olds
               then n\<lparr>markedForDeletion := False, disruptionTaint := False\<rparr> else n) cl"

text \<open>Modelled from the spec: step (c), "delete old node-claims".\<close>

definition delete_node_claims :: "string list \<Rightarrow> StateNode list \<Rightarrow> StateNode list" where
  "delete_node_claims olds cl = filter (\<lambda>n. nodeClaimName n \<notin> set olds) cl"

text \<open>Modelled from the spec: a replacement node-claim created in step (b).\<close>

definition new_node :: "Engine \<Rightarrow> string \<Rightarrow> StateNode" where
  "new_node E name =
     \<lparr>nodeClaimName = name, nodeName = name, nodeAnnotations = [], pods = [],
      initialized = (launch E name = ReachedInitialized), markedForDeletion = False,
      drifted = False, disruptionTaint = False\<rparr>"

text \<open>
  Modelled from the spec: the re-check of one candidate at execution time. Invariants
  "are re-checked at execution time, not relied upon from validation time", and "if
  between validation and execution a candidate's pods change, the command is
  discarded": the old node-claim is still in cluster state, its node has the pods it
  had at validation, and it neither carries the do-not-disrupt annotation nor hosts a
  pod that does.
\<close>

definition candidate_stands :: "StateNode list \<Rightarrow> Candidate \<Rightarrow> bool" where
  "candidate_stands cl c =
     (list_ex (\<lambda>n. nodeClaimName n = candidateName c) cl
      \<and> list_all (\<lambda>n. nodeClaimName n = candidateName c
                       \<longrightarrow> pods n = candidatePods c \<and> \<not> protected n) cl)"

text \<open>
  Modelled from the spec: a command is carried out only if it names an old node-claim
  and every one of its candidates stands the re-check; otherwise it is discarded.
\<close>

definition still_valid :: "StateNode list \<Rightarrow> Command \<Rightarrow> bool" where
  "still_valid cl cmd =
     (old_candidates cmd \<noteq> [] \<and> list_all (candidate_stands cl) (old_candidates cmd))"

text \<open>
  Modelled from the spec: the replacements of a failed command that are node-claims
  afterwards: none whose creation was rejected ("new node-claim is attempted and
  removed"), and of the others those the surroundings leave behind.
\<close>

definition remaining_replacements :: "Engine \<Rightarrow> string list \<Rightarrow> string list" where
  "remaining_replacements E news =
     filter (\<lambda>name. launch E name \<noteq> CreateRejected \<and> leftBehind E name) news"

text \<open>
  Modelled from the spec: the semantics of the queue's commands. A command that does
  not stand the re-check is discarded. Delete: mark for deletion and delete the
  node-claims directly. Replace: (a) mark the old nodes, (b) create the new
  node-claims and wait for each to reach Initialized, (c) delete the old node-claims;
  if (b) times out or the replacement fails, untaint the old nodes.
\<close>

definition execute :: "Engine \<Rightarrow> Command \<Rightarrow> StateNode list \<Rightarrow> StateNode list" where
  "execute E cmd cl =
     (if \<not> still_valid cl cmd then cl
      else (case cmd of
        Delete olds \<Rightarrow>
          delete_node_claims (map candidateName olds)
            (mark_for_deletion (map candidateName olds) cl)
      | Replace olds news \<Rightarrow>
          (let cl1 = mark_for_deletion (map candidateName olds) cl
           in if list_all (\<lambda>name. launch E name = ReachedInitialized) news
              then delete_node_claims (map candidateName olds) (cl1 @ map (new_node E) news)
              else untaint (map candidateName olds)
                     (cl1 @ map (new_node E) (remaining_replacements E news)))))"

text \<open>
  Modelled from the spec: the queue carrying out its commands, first in first out;
  each command leaves the queue, also when it is discarded or fails ("drop the
  command").
\<close>

fun drain :: "Engine \<Rightarrow> Command list \<Rightarrow> StateNode list \<Rightarrow> StateNode list" where
  "drain E [] cl = cl"
| "drain E (cmd # rest) cl = drain E rest (execute E cmd cl)"

text \<open>
  Modelled from the spec: a disruption reconcile pass: a tick of the engine, followed
  by the queue carrying out what it holds.
\<close>

definition disruption_pass :: "Engine \<Rightarrow> DisruptionState \<Rightarrow> DisruptionState" where
  "disruption_pass E st =
     (let st' = Engine_Reconcile E st
      in \<lparr>cluster = drain E (queue st') (cluster st'), queue = []\<rparr>)"

subsection \<open>A concrete engine and cluster\<close>

text \<open>
  An engine in which only drift is ever due, budgets always allow, the simulation
  asks for one replacement per pod of the candidate and failed replacements are left
  behind; the nodes of the drift tests: initialized, drifted, not marked for deletion.
\<close>

definition drift_engine :: "bool \<Rightarrow> LaunchOutcome \<Rightarrow> Engine" where
  "drift_engine gate outcome =
     \<lparr>driftGate = gate, due = (\<lambda>m n. False), withinBudget = (\<lambda>cl n. True),
      simulate = (\<lambda>m cl n. Some (map (\<lambda>p. nodeClaimName n @ ''-replacement'') (pods n))),
      launch = (\<lambda>name. outcome), leftBehind = (\<lambda>name. True)\<rparr>"

definition state_node :: "string \<Rightarrow> (string \<times> string) list \<Rightarrow> StatePod list \<Rightarrow> StateNode" where
  "state_node name annotations ps =
     \<lparr>nodeClaimName = name, nodeName = name, nodeAnnotations = annotations, pods = ps,
      initialized = True, markedForDeletion = False, drifted = True, disruptionTaint = False\<rparr>"

definition annotated_node :: StateNode where
  "annotated_node = state_node ''annotated'' [(''karpenter.sh/do-not-disrupt'', ''true'')] []"

definition hosting_node :: StateNode where
  "hosting_node = state_node ''hosting'' []
     [\<lparr>podName = ''pod'', podAnnotations = [(''karpenter.sh/do-not-disrupt'', ''true'')]\<rparr>]"

definition empty_drifted_node :: StateNode where
  "empty_drifted_node = state_node ''drifted'' [] []"

definition busy_drifted_node :: StateNode where
  "busy_drifted_node = state_node ''old'' [] [\<lparr>podName = ''pod'', podAnnotations = []\<rparr>]"

section \<open>Limits.ExceededBy\<close>

lemma range_resources_None_iff:
  "(range_resources l rs = None) = (\<forall>(n, u) \<in> set rs. \<forall>q. l n = Some q \<longrightarrow> u \<le> q)"
  by (induction l rs rule: range_resources.induct) (auto split: option.splits)

lemma range_resources_Some:
  "range_resources l rs = Some (ExceedsLimit n u q) \<Longrightarrow> (n, u) \<in> set rs \<and> l n = Some q \<and> u > q"
  by (induction l rs rule: range_resources.induct) (auto split: option.splits if_splits)

text \<open>
  C3. For a \<^verbatim>\<open>nil\<close> Limits, ExceededBy returns \<^verbatim>\<open>nil\<close>. Otherwise it returns \<^verbatim>\<open>nil\<close> if and
  only if every resource name present both in the limits and in the resource list has
  a usage less than or equal to its limit, in whatever order the resource list is
  ranged over; and an error it returns names a resource of the list, its usage and its
  limit, the usage being greater than the limit.
\<close>

theorem ExceededBy_correct:
  "ExceededBy None r = None
   \<and> ((ExceededBy (Some l) r = None) =
        (\<forall>(n, u) \<in> set r. \<forall>q. l n = Some q \<longrightarrow> u \<le> q))
   \<and> (\<forall>n u q. ExceededBy (Some l) r = Some (ExceedsLimit n u q)
         \<longrightarrow> (n, u) \<in> set r \<and> l n = Some q \<and> u > q)"
  using range_resources_Some by (auto simp: ExceededBy_def range_resources_None_iff)

theorem ExceededBy_correct_witness:
  "ExceededBy (Some [''cpu'' \<mapsto> 10]) [(''memory'', 64), (''cpu'', 10)] = None
   \<and> ExceededBy (Some [''cpu'' \<mapsto> 10]) [(''memory'', 64), (''cpu'', 11)]
       = Some (ExceedsLimit ''cpu'' 11 10)
   \<and> (''cpu'', 11) \<in> set [(''memory'', 64), (''cpu'', 11::rat)]"
  using ExceededBy_correct [where l = "[''cpu'' \<mapsto> 10]" and r = "[(''memory'', 64), (''cpu'', 11)]"]
    ExceededBy_correct [where l = "[''cpu'' \<mapsto> 10]" and r = "[(''memory'', 64), (''cpu'', 10)]"]
  by (simp add: ExceededBy_def)

section \<open>NodePoolList.OrderByWeight\<close>

lemma mset_sift: "mset (sift lt x ys) = add_mset x (mset ys)"
  by (induction ys) simp_all

lemma mset_fold_sift: "mset (fold (sift lt) xs acc) = mset xs + mset acc"
  by (induction xs arbitrary: acc) (simp_all add: mset_sift)

lemma mset_sort_Slice: "mset (sort_Slice lt xs) = mset xs"
  by (simp add: sort_Slice_def mset_fold_sift)

lemma set_sift: "set (sift lt x ys) = insert x (set ys)"
  by (induction ys) auto

text \<open>The prefix held in reverse is ascending in weight from its head on.\<close>

lemma sorted_sift:
  "sorted_wrt (\<lambda>a b. weight_of a \<le> weight_of b) ys
   \<Longrightarrow> sorted_wrt (\<lambda>a b. weight_of a \<le> weight_of b) (sift weight_less x ys)"
  by (induction ys) (auto simp: set_sift weight_less_def weight_of_def)

lemma sorted_fold_sift:
  "sorted_wrt (\<lambda>a b. weight_of a \<le> weight_of b) acc
   \<Longrightarrow> sorted_wrt (\<lambda>a b. weight_of a \<le> weight_of b) (fold (sift weight_less) xs acc)"
  by (induction xs arbitrary: acc) (simp_all add: sorted_sift)

lemma sorted_sort_Slice:
  "sorted_wrt (\<lambda>a b. weight_of b \<le> weight_of a) (sort_Slice weight_less xs)"
  using sorted_fold_sift [of "[]" xs]
  by (simp add: sort_Slice_def sorted_wrt_rev)

text \<open>
  C4, as amended. After OrderByWeight the items are the items of the input, each as
  often as before, in descending order of weight, a \<^verbatim>\<open>nil\<close> weight counting as 0.
  Nothing is said about the order of pools of equal weight.
\<close>

theorem OrderByWeight_descending:
  "mset (Items (OrderByWeight pl)) = mset (Items pl)
   \<and> sorted_wrt (\<lambda>a b. weight_of b \<le> weight_of a) (Items (OrderByWeight pl))"
  by (simp add: OrderByWeight_def mset_sort_Slice sorted_sort_Slice)

theorem OrderByWeight_descending_witness:
  "map NodePool.Name (Items (OrderByWeight
      \<lparr>Items = [pool ''low'' (Some 1), pool ''none'' None, pool ''high'' (Some 100)]\<rparr>))
     = [''high'', ''low'', ''none'']
   \<and> sorted_wrt (\<lambda>a b. weight_of b \<le> weight_of a) (Items (OrderByWeight
      \<lparr>Items = [pool ''low'' (Some 1), pool ''none'' None, pool ''high'' (Some 100)]\<rparr>))"
  using OrderByWeight_descending
    [of "\<lparr>Items = [pool ''low'' (Some 1), pool ''none'' None, pool ''high'' (Some 100)]\<rparr>"]
  by (simp add: OrderByWeight_def sort_Slice_def weight_less_def Int32Value_def pool_def)

text \<open>
  C4 as stated fails: two pools of equal weight named b and a, in this order, stay in
  this order, which is not ascending by name; and the same two pools given in the
  other order come out in the other order, so the result is not a function of the
  (weight, name) pairs.
\<close>

theorem OrderByWeight_ties_counterexample:
  "map NodePool.Name (Items (OrderByWeight \<lparr>Items = [pool ''b'' None, pool ''a'' None]\<rparr>))
     = [''b'', ''a'']
   \<and> \<not> ordered_by_weight_then_name
         (Items (OrderByWeight \<lparr>Items = [pool ''b'' None, pool ''a'' None]\<rparr>))
   \<and> map NodePool.Name (Items (OrderByWeight \<lparr>Items = [pool ''a'' None, pool ''b'' None]\<rparr>))
     = [''a'', ''b'']"
  by (simp add: OrderByWeight_def sort_Slice_def weight_less_def Int32Value_def pool_def
      ordered_by_weight_then_name_def weight_then_name_def weight_of_def)

section \<open>Disruption.validate\<close>

text \<open>
  C5, as amended. validate returns an error if and only if the ExpireAfter duration is
  negative, or the ConsolidateAfter duration is negative, or ConsolidateAfter is set
  to a duration (not to Never) while the policy is WhenUnderutilized, or
  ConsolidateAfter is unset while the policy is WhenEmpty.
\<close>

theorem Disruption_validate_error_iff:
  "(Disruption_validate d \<noteq> []) =
     (is_negative (Duration (ExpireAfter d))
      \<or> consolidate_negative (ConsolidateAfter d)
      \<or> (has_duration (ConsolidateAfter d)
          \<and> ConsolidationPolicy d = ConsolidationPolicyWhenUnderutilized)
      \<or> (ConsolidateAfter d = None \<and> ConsolidationPolicy d = ConsolidationPolicyWhenEmpty))"
  by (simp add: Disruption_validate_def Also_def)

theorem Disruption_validate_error_iff_witness:
  "Disruption_validate \<lparr>ConsolidateAfter = Some \<lparr>Duration = Some 30000000000\<rparr>,
       ConsolidationPolicy = ''WhenUnderutilized'', ExpireAfter = \<lparr>Duration = None\<rparr>\<rparr> \<noteq> []
   \<and> Disruption_validate \<lparr>ConsolidateAfter = Some \<lparr>Duration = Some 30000000000\<rparr>,
       ConsolidationPolicy = ''WhenEmpty'', ExpireAfter = \<lparr>Duration = Some (- 1)\<rparr>\<rparr> \<noteq> []
   \<and> Disruption_validate \<lparr>ConsolidateAfter = Some \<lparr>Duration = Some 30000000000\<rparr>,
       ConsolidationPolicy = ''WhenEmpty'', ExpireAfter = \<lparr>Duration = None\<rparr>\<rparr> = []"
  using Disruption_validate_error_iff [of "\<lparr>ConsolidateAfter = Some \<lparr>Duration = Some 30000000000\<rparr>,
       ConsolidationPolicy = ''WhenUnderutilized'', ExpireAfter = \<lparr>Duration = None\<rparr>\<rparr>"]
    Disruption_validate_error_iff [of "\<lparr>ConsolidateAfter = Some \<lparr>Duration = Some 30000000000\<rparr>,
       ConsolidationPolicy = ''WhenEmpty'', ExpireAfter = \<lparr>Duration = Some (- 1)\<rparr>\<rparr>"]
    Disruption_validate_error_iff [of "\<lparr>ConsolidateAfter = Some \<lparr>Duration = Some 30000000000\<rparr>,
       ConsolidationPolicy = ''WhenEmpty'', ExpireAfter = \<lparr>Duration = None\<rparr>\<rparr>"]
  by (simp add: is_negative_def has_duration_def consolidate_negative_def
       ConsolidationPolicyWhenUnderutilized_def ConsolidationPolicyWhenEmpty_def)

text \<open>
  C5 as stated fails: with ConsolidateAfter set to Never and the policy
  WhenUnderutilized, the rule of the specification is violated (ConsolidateAfter is set
  while the policy is not WhenEmpty), and validate returns no error.
\<close>

theorem Disruption_validate_never_counterexample:
  "Disruption_validate \<lparr>ConsolidateAfter = Some \<lparr>Duration = None\<rparr>,
       ConsolidationPolicy = ''WhenUnderutilized'', ExpireAfter = \<lparr>Duration = None\<rparr>\<rparr> = []
   \<and> spec_admission_violated \<lparr>ConsolidateAfter = Some \<lparr>Duration = None\<rparr>,
       ConsolidationPolicy = ''WhenUnderutilized'', ExpireAfter = \<lparr>Duration = None\<rparr>\<rparr>"
  by (simp add: Disruption_validate_def spec_admission_violated_def is_negative_def
       has_duration_def consolidate_negative_def
       ConsolidationPolicyWhenUnderutilized_def ConsolidationPolicyWhenEmpty_def)

section \<open>NodePool.Hash\<close>

text \<open>
  C6. Two node pools with equal templates have the same Hash, whatever the library
  hash is and whatever their disruption policy, limits, weight, metadata and status
  are; so two pools whose hashes differ have different templates.
\<close>

theorem Hash_template_only:
  "(Template (NodePool.Spec a) = Template (NodePool.Spec b) \<longrightarrow> Hash h a = Hash h b)
   \<and> Hash h (np\<lparr>NodePool.Name := n, Metadata := m, Status := st,
               NodePool.Spec := (NodePool.Spec np)\<lparr>Disruption := d, Limits := l, Weight := w\<rparr>\<rparr>)
       = Hash h np
   \<and> (Hash h a \<noteq> Hash h b \<longrightarrow> Template (NodePool.Spec a) \<noteq> Template (NodePool.Spec b))"
  by (auto simp: Hash_def)

theorem Hash_template_only_witness:
  "Template (NodePool.Spec (pool ''a'' None)) = Template (NodePool.Spec (pool ''b'' (Some 7)))
   \<and> pool ''a'' None \<noteq> pool ''b'' (Some 7)
   \<and> Hash label_count_hash (pool ''a'' None) = Hash label_count_hash (pool ''b'' (Some 7))
   \<and> Hash label_count_hash (pool ''a'' None) = Inr ''0''"
proof -
  have t: "Template (NodePool.Spec (pool ''a'' None))
           = Template (NodePool.Spec (pool ''b'' (Some 7)))"
    by (simp add: pool_def)
  have d: "pool ''a'' None \<noteq> pool ''b'' (Some 7)"
    by (simp add: pool_def)
  have z: "char_of (48 :: nat) = CHR ''0''"
    by code_simp
  have v: "Hash label_count_hash (pool ''a'' None) = Inr ''0''"
    by (simp add: Hash_def label_count_hash_def pool_def Sprint.simps z)
  show ?thesis
    using Hash_template_only [of "pool ''a'' None" "pool ''b'' (Some 7)" label_count_hash] t d v
    by simp
qed

section \<open>The node pool key in templates\<close>

lemma fold_Also_length:
  "length (fold (\<lambda>err e. Also e [f err]) xs errs) = length errs + length xs"
  by (induction xs arbitrary: errs) (simp_all add: Also_def)

lemma fold_Also_Nil_iff:
  "(fold (\<lambda>err e. Also e [f err]) xs errs = []) = (errs = [] \<and> xs = [])"
  using fold_Also_length [of f xs errs] by (metis add_is_0 length_0_conv)

lemma validate_label_Nil_iff:
  "(validate_label lc kv errs = []) =
     (errs = [] \<and> fst kv \<noteq> NodePoolLabelKey \<and> IsQualifiedName lc (fst kv) = []
      \<and> IsValidLabelValue lc (snd kv) = [] \<and> IsRestrictedLabel lc (fst kv) = None)"
proof -
  have single: "Also e [x] \<noteq> []" for e :: errs and x
    by (simp add: Also_def)
  show ?thesis
    by (cases "IsRestrictedLabel lc (fst kv)")
       (simp_all add: validate_label_def Let_def fold_Also_Nil_iff single)
qed

lemma fold_validate_label_Nil_iff:
  "(fold (validate_label lc) kvs errs = []) =
     (errs = [] \<and> (\<forall>kv \<in> set kvs. fst kv \<noteq> NodePoolLabelKey \<and> IsQualifiedName lc (fst kv) = []
      \<and> IsValidLabelValue lc (snd kv) = [] \<and> IsRestrictedLabel lc (fst kv) = None))"
  by (induction kvs arbitrary: errs) (auto simp: validate_label_Nil_iff)

lemma validateLabels_Nil_iff:
  "(validateLabels lc t = []) =
     (\<forall>kv \<in> set (ObjectMeta.Labels t). fst kv \<noteq> NodePoolLabelKey \<and> IsQualifiedName lc (fst kv) = []
      \<and> IsValidLabelValue lc (snd kv) = [] \<and> IsRestrictedLabel lc (fst kv) = None)"
  by (simp add: validateLabels_def fold_validate_label_Nil_iff)

lemma requirements_loop_Nil_iff:
  "(requirements_loop i rs errs = []) = (errs = [] \<and> (\<forall>r \<in> set rs. Key r \<noteq> NodePoolLabelKey))"
  by (induction i rs errs rule: requirements_loop.induct) (auto simp: Also_def)

lemma validateRequirements_Nil_iff:
  "(validateRequirementsNodePoolKeyDoesNotExist t = []) =
     (\<forall>r \<in> set (Requirements (NodeClaimTemplate.Spec t)). Key r \<noteq> NodePoolLabelKey)"
  by (simp add: validateRequirementsNodePoolKeyDoesNotExist_def requirements_loop_Nil_iff)

lemma NodeClaimTemplate_validate_Nil_iff:
  "(NodeClaimTemplate_validate lc sv t = []) =
     (Requests (NodeClaimTemplate.Spec t) = [] \<and> validateLabels lc t = []
      \<and> validateRequirementsNodePoolKeyDoesNotExist t = [] \<and> sv (NodeClaimTemplate.Spec t) = [])"
  by (auto simp: NodeClaimTemplate_validate_def Let_def Also_def via_field_def)

text \<open>
  C8, as amended. A template whose labels contain the node pool key is rejected by
  validateLabels, one whose requirements contain a requirement with that key by
  validateRequirementsNodePoolKeyDoesNotExist, and either by the validation of the
  template. A template with no such requirement passes
  validateRequirementsNodePoolKeyDoesNotExist; a template with no such label passes
  validateLabels when, in addition, every label key is a qualified name and no
  restricted label and every label value is a valid label value.
\<close>

theorem nodepool_key_rejected:
  "(NodePoolLabelKey \<in> fst ` set (ObjectMeta.Labels t)
      \<longrightarrow> validateLabels lc t \<noteq> [] \<and> NodeClaimTemplate_validate lc sv t \<noteq> [])
   \<and> ((\<exists>r \<in> set (Requirements (NodeClaimTemplate.Spec t)). Key r = NodePoolLabelKey)
      \<longrightarrow> validateRequirementsNodePoolKeyDoesNotExist t \<noteq> []
          \<and> NodeClaimTemplate_validate lc sv t \<noteq> [])
   \<and> ((\<forall>r \<in> set (Requirements (NodeClaimTemplate.Spec t)). Key r \<noteq> NodePoolLabelKey)
      \<longrightarrow> validateRequirementsNodePoolKeyDoesNotExist t = [])
   \<and> (NodePoolLabelKey \<notin> fst ` set (ObjectMeta.Labels t)
       \<and> (\<forall>kv \<in> set (ObjectMeta.Labels t). IsQualifiedName lc (fst kv) = []
             \<and> IsValidLabelValue lc (snd kv) = [] \<and> IsRestrictedLabel lc (fst kv) = None)
      \<longrightarrow> validateLabels lc t = [])"
  unfolding NodeClaimTemplate_validate_Nil_iff validateLabels_Nil_iff validateRequirements_Nil_iff
  by force

theorem nodepool_key_rejected_witness:
  "validateLabels rejects_empty_name
      (template [(''karpenter.sh/nodepool'', ''default'')] []) \<noteq> []
   \<and> validateRequirementsNodePoolKeyDoesNotExist
      (template [] [\<lparr>Key = ''karpenter.sh/nodepool'', Operator = ''In'', Values = [''default'']\<rparr>])
       \<noteq> []
   \<and> validateRequirementsNodePoolKeyDoesNotExist
      (template [(''team'', ''infra'')]
         [\<lparr>Key = ''kubernetes.io/arch'', Operator = ''In'', Values = [''amd64'']\<rparr>]) = []
   \<and> validateLabels rejects_empty_name
      (template [(''team'', ''infra'')]
         [\<lparr>Key = ''kubernetes.io/arch'', Operator = ''In'', Values = [''amd64'']\<rparr>]) = []"
  using nodepool_key_rejected
      [of "template [(''karpenter.sh/nodepool'', ''default'')] []" rejects_empty_name "\<lambda>s. []"]
    nodepool_key_rejected
      [of "template [] [\<lparr>Key = ''karpenter.sh/nodepool'', Operator = ''In'', Values = [''default'']\<rparr>]"
          rejects_empty_name "\<lambda>s. []"]
    nodepool_key_rejected
      [of "template [(''team'', ''infra'')]
             [\<lparr>Key = ''kubernetes.io/arch'', Operator = ''In'', Values = [''amd64'']\<rparr>]"
          rejects_empty_name "\<lambda>s. []"]
  by (simp add: NodePoolLabelKey_def rejects_empty_name_def template_def)

text \<open>
  C8 as stated fails in its last part: a template whose only label has the empty key
  uses the node pool key neither in its labels nor in its requirements, and
  validateLabels rejects it, the empty key being no qualified name.
\<close>

theorem validateLabels_other_checks_counterexample:
  "NodePoolLabelKey \<notin> fst ` set (ObjectMeta.Labels (template [('''', '''')] []))
   \<and> Requirements (NodeClaimTemplate.Spec (template [('''', '''')] [])) = []
   \<and> validateLabels rejects_empty_name (template [('''', '''')] []) \<noteq> []"
  by (simp add: validateLabels_def validate_label_def NodePoolLabelKey_def
      rejects_empty_name_def Also_def template_def)

section \<open>HealthProbe\<close>

text \<open>
  C9. The checker returned by HealthProbe reports a failure exactly when the GET to the
  webhook port fails at the connection level or answers with a status code that is at
  least 500 or equal to 404; every other status code is reported healthy.
\<close>

theorem HealthProbe_fails_iff:
  "(HealthProbe http_get port \<noteq> None) =
     ((\<exists>err. http_get port = Inl err) \<or>
      (\<exists>res. http_get port = Inr res \<and> (StatusCode res \<ge> 500 \<or> StatusCode res = 404)))"
  by (cases "http_get port") (simp_all add: HealthProbe_def)

theorem HealthProbe_fails_iff_witness:
  "HealthProbe (\<lambda>p. Inr \<lparr>StatusCode = 403\<rparr>) 8443 = None
   \<and> HealthProbe (\<lambda>p. Inr \<lparr>StatusCode = 404\<rparr>) 8443 = Some (ProbeFailed 404)
   \<and> HealthProbe (\<lambda>p. Inr \<lparr>StatusCode = 503\<rparr>) 8443 \<noteq> None
   \<and> HealthProbe (\<lambda>p. Inl ''connection refused'') 8443 \<noteq> None"
  using HealthProbe_fails_iff [of "\<lambda>p. Inr \<lparr>StatusCode = 503\<rparr>" 8443]
        HealthProbe_fails_iff [of "\<lambda>p. Inl ''connection refused''" 8443]
  by (simp add: HealthProbe_def)

section \<open>Reconcile of the pod metrics controller\<close>

text \<open>
  C10. When the Get of the requested pod returns not-found, Reconcile removes the
  entry of the request's key from the metric store and the key from the pending-pods
  set, touches nothing else, and returns the zero result (no requeue) with no error.
  On any other failure of that Get it returns the error and leaves the controller as
  it was.
\<close>

theorem Reconcile_pod_gone:
  "(Get_Pod k req = Inl err \<and> IsNotFound err \<longrightarrow>
      (case Reconcile k c req of (c', res, e) \<Rightarrow>
         metricStore c' = (metricStore c)(NamespacedName_String req := None)
         \<and> pendingPods c' = pendingPods c - {NamespacedName_String req}
         \<and> metricStore c' (NamespacedName_String req) = None
         \<and> NamespacedName_String req \<notin> pendingPods c'
         \<and> podStartupTimeSummary c' = podStartupTimeSummary c
         \<and> res = \<lparr>Requeue = False, RequeueAfter = 0\<rparr> \<and> e = None))
   \<and> (Get_Pod k req = Inl err \<and> \<not> IsNotFound err \<longrightarrow>
        Reconcile k c req = (c, \<lparr>Requeue = False, RequeueAfter = 0\<rparr>, Some err))"
  by (simp add: Reconcile_def IgnoreNotFound_def)

theorem Reconcile_pod_gone_witness:
  "(case Reconcile gone
        \<lparr>metricStore = [''default/web'' \<mapsto> [\<lparr>Value = 1, MetricLabels = []\<rparr>]],
         pendingPods = {''default/web''}, podStartupTimeSummary = []\<rparr>
        \<lparr>NamespacedName.Namespace = ''default'', NamespacedName.Name = ''web''\<rparr> of
      (c', res, e) \<Rightarrow> metricStore c' ''default/web'' = None \<and> ''default/web'' \<notin> pendingPods c'
         \<and> res = \<lparr>Requeue = False, RequeueAfter = 0\<rparr> \<and> e = None)
   \<and> Reconcile broken
        \<lparr>metricStore = [''default/web'' \<mapsto> [\<lparr>Value = 1, MetricLabels = []\<rparr>]],
         pendingPods = {''default/web''}, podStartupTimeSummary = []\<rparr>
        \<lparr>NamespacedName.Namespace = ''default'', NamespacedName.Name = ''web''\<rparr>
      = (\<lparr>metricStore = [''default/web'' \<mapsto> [\<lparr>Value = 1, MetricLabels = []\<rparr>]],
         pendingPods = {''default/web''}, podStartupTimeSummary = []\<rparr>,
         \<lparr>Requeue = False, RequeueAfter = 0\<rparr>, Some (ApiError ''connection refused''))"
  using Reconcile_pod_gone [of gone "\<lparr>NamespacedName.Namespace = ''default'', NamespacedName.Name = ''web''\<rparr>"
        "NotFound ''pod web not found''"
        "\<lparr>metricStore = [''default/web'' \<mapsto> [\<lparr>Value = 1, MetricLabels = []\<rparr>]],
         pendingPods = {''default/web''}, podStartupTimeSummary = []\<rparr>"]
    Reconcile_pod_gone [of broken "\<lparr>NamespacedName.Namespace = ''default'', NamespacedName.Name = ''web''\<rparr>"
        "ApiError ''connection refused''"
        "\<lparr>metricStore = [''default/web'' \<mapsto> [\<lparr>Value = 1, MetricLabels = []\<rparr>]],
         pendingPods = {''default/web''}, podStartupTimeSummary = []\<rparr>"]
  by (simp add: gone_def broken_def IsNotFound_def NamespacedName_String_def split: prod.splits)

section \<open>Disruption\<close>

lemma in_flight_append:
  "in_flight (q @ [cmd]) n = (in_flight q n \<or> nodeClaimName n \<in> set (old_names cmd))"
  by (auto simp: in_flight_def list_ex_iff)

lemma command_for_old_names:
  "command_for E m cl c = Some cmd \<Longrightarrow> old_names cmd = [nodeClaimName c]"
  by (auto simp: command_for_def old_names_def old_candidates_def candidate_of_def
      split: if_splits option.splits list.splits)

text \<open>A method only appends to the queue, and what it appends are commands of its candidates.\<close>

lemma method_commands_appends:
  "\<exists>new. method_commands E m cl q ns = q @ new
         \<and> (\<forall>cmd \<in> set new. \<exists>c \<in> set ns. command_for E m cl c = Some cmd)"
proof (induction ns arbitrary: q)
  case Nil
  then show ?case by simp
next
  case (Cons c ns)
  let ?q = "if in_flight q c then q
            else (case command_for E m cl c of None \<Rightarrow> q | Some cmd \<Rightarrow> q @ [cmd])"
  obtain first where first: "?q = q @ first"
    "\<forall>cmd \<in> set first. command_for E m cl c = Some cmd"
    by (cases "in_flight q c"; cases "command_for E m cl c") auto
  obtain more where more: "method_commands E m cl ?q ns = ?q @ more"
    "\<forall>cmd \<in> set more. \<exists>c \<in> set ns. command_for E m cl c = Some cmd"
    using Cons.IH [of ?q] by blast
  have "method_commands E m cl q (c # ns) = q @ (first @ more)"
    using first(1) more(1) by simp
  moreover have "\<forall>cmd \<in> set (first @ more). \<exists>c' \<in> set (c # ns). command_for E m cl c' = Some cmd"
    using first(2) more(2) by auto
  ultimately show ?case by blast
qed

lemma candidates_subset: "c \<in> set (candidates E m cl) \<Longrightarrow> c \<in> set cl \<and> \<not> protected c"
  by (auto simp: candidates_def eligible_def protected_def)

lemma fold_methods_appends:
  "\<exists>new. fold (\<lambda>m q. method_commands E m cl q (candidates E m cl)) ms q = q @ new
         \<and> (\<forall>cmd \<in> set new. \<exists>c \<in> set cl. \<not> protected c \<and> old_names cmd = [nodeClaimName c])"
proof (induction ms arbitrary: q)
  case Nil
  then show ?case by simp
next
  case (Cons m ms)
  let ?q = "method_commands E m cl q (candidates E m cl)"
  obtain first where first: "?q = q @ first"
    "\<forall>cmd \<in> set first. \<exists>c \<in> set (candidates E m cl). command_for E m cl c = Some cmd"
    using method_commands_appends by blast
  have first': "\<forall>cmd \<in> set first. \<exists>c \<in> set cl. \<not> protected c \<and> old_names cmd = [nodeClaimName c]"
    using first(2) candidates_subset command_for_old_names by blast
  obtain more where more:
    "fold (\<lambda>m q. method_commands E m cl q (candidates E m cl)) ms ?q = ?q @ more"
    "\<forall>cmd \<in> set more. \<exists>c \<in> set cl. \<not> protected c \<and> old_names cmd = [nodeClaimName c]"
    using Cons.IH [of ?q] by blast
  have "fold (\<lambda>m q. method_commands E m cl q (candidates E m cl)) (m # ms) q = q @ (first @ more)"
    using first(1) more(1) by simp
  moreover have "\<forall>cmd \<in> set (first @ more).
      \<exists>c \<in> set cl. \<not> protected c \<and> old_names cmd = [nodeClaimName c]"
    using first' more(2) by auto
  ultimately show ?case by blast
qed

lemma issued_commands:
  "queue (Engine_Reconcile E st) = queue st @ issued E st
   \<and> (\<forall>cmd \<in> set (issued E st).
         \<exists>c \<in> set (cluster st). \<not> protected c \<and> old_names cmd = [nodeClaimName c])"
proof -
  obtain new where new:
    "queue (Engine_Reconcile E st) = queue st @ new"
    "\<forall>cmd \<in> set new. \<exists>c \<in> set (cluster st). \<not> protected c \<and> old_names cmd = [nodeClaimName c]"
    using fold_methods_appends [of E "cluster st" methods "queue st"]
    by (auto simp: Engine_Reconcile_def)
  have "issued E st = new"
    by (simp add: issued_def new(1))
  then show ?thesis
    using new by simp
qed

lemma same_name_same_node:
  "distinct (map nodeClaimName cl) \<Longrightarrow> c \<in> set cl \<Longrightarrow> n \<in> set cl
   \<Longrightarrow> nodeClaimName c = nodeClaimName n \<Longrightarrow> c = n"
  by (meson distinct_map inj_onD)

lemma mark_keeps:
  "nodeClaimName n \<notin> set olds \<Longrightarrow> n \<in> set cl \<Longrightarrow> n \<in> set (mark_for_deletion olds cl)"
  by (force simp: mark_for_deletion_def)

lemma untaint_keeps:
  "nodeClaimName n \<notin> set olds \<Longrightarrow> n \<in> set cl \<Longrightarrow> n \<in> set (untaint olds cl)"
  by (force simp: untaint_def)

lemma delete_keeps:
  "nodeClaimName n \<notin> set olds \<Longrightarrow> n \<in> set cl \<Longrightarrow> n \<in> set (delete_node_claims olds cl)"
  by (simp add: delete_node_claims_def)

text \<open>A command that stands the re-check names no protected node of the cluster.\<close>

lemma still_valid_not_named:
  assumes "still_valid cl cmd" and "n \<in> set cl" and "protected n"
  shows "nodeClaimName n \<notin> set (map candidateName (old_candidates cmd))"
proof
  assume "nodeClaimName n \<in> set (map candidateName (old_candidates cmd))"
  then obtain c where c: "c \<in> set (old_candidates cmd)" "candidateName c = nodeClaimName n"
    by auto
  have "candidate_stands cl c"
    using assms(1) c(1) by (simp add: still_valid_def list_all_iff)
  then have "\<not> protected n"
    using assms(2) c(2) by (simp add: candidate_stands_def list_all_iff)
  then show False
    using assms(3) by simp
qed

lemma execute_keeps_protected:
  assumes "n \<in> set cl" and "protected n"
  shows "n \<in> set (execute E cmd cl)"
proof (cases "still_valid cl cmd")
  case False
  then show ?thesis
    using assms(1) by (simp add: execute_def)
next
  case True
  have name: "nodeClaimName n \<notin> set (map candidateName (old_candidates cmd))"
    using still_valid_not_named [OF True assms] .
  show ?thesis
  proof (cases cmd)
    case (Delete olds)
    then show ?thesis
      using True name assms(1)
      by (simp add: execute_def old_candidates_def delete_keeps mark_keeps)
  next
    case (Replace olds news)
    have marked: "n \<in> set (mark_for_deletion (map candidateName olds) cl)"
      using name assms(1) Replace by (simp add: old_candidates_def mark_keeps)
    show ?thesis
      using True name marked Replace
      by (auto simp: execute_def Let_def old_candidates_def intro!: delete_keeps untaint_keeps)
  qed
qed

lemma drain_keeps_protected:
  "n \<in> set cl \<Longrightarrow> protected n \<Longrightarrow> n \<in> set (drain E q cl)"
  by (induction q arbitrary: cl) (simp_all add: execute_keeps_protected)

text \<open>In a cluster of protected nodes no command stands the re-check.\<close>

lemma still_valid_needs_unprotected:
  assumes "\<forall>x \<in> set cl. protected x"
  shows "\<not> still_valid cl cmd"
proof
  assume valid: "still_valid cl cmd"
  then obtain c where c: "c \<in> set (old_candidates cmd)"
    by (cases "old_candidates cmd") (auto simp: still_valid_def)
  have stands: "candidate_stands cl c"
    using valid c by (simp add: still_valid_def list_all_iff)
  then obtain n where n: "n \<in> set cl" "nodeClaimName n = candidateName c"
    by (auto simp: candidate_stands_def list_ex_iff)
  have "\<not> protected n"
    using stands n by (simp add: candidate_stands_def list_all_iff)
  then show False
    using assms n(1) by simp
qed

lemma drain_all_protected:
  "\<forall>x \<in> set cl. protected x \<Longrightarrow> drain E q cl = cl"
  by (induction q) (simp_all add: execute_def still_valid_needs_unprotected)

text \<open>
  C1, as amended. Let a node of the cluster carry the do-not-disrupt annotation or host
  a pod that carries it. The commands a tick of the engine issues are pushed behind
  those already queued, and each of them is for an unprotected node of the cluster;
  where node-claim names are unique in the cluster, none of them, Delete or Replace,
  names the node-claim of the protected node. After the whole pass, which also carries
  out the commands that were queued before, the protected node is still in the
  cluster, exactly as it was. When every node of the cluster is so protected, the
  pass leaves the node-claims and nodes as they were. (Other, unprotected nodes of
  the same cluster may be disrupted by the pass.)
\<close>

theorem protected_node_never_disrupted:
  assumes "n \<in> set (cluster st)" and "protected n"
  shows "queue (Engine_Reconcile E st) = queue st @ issued E st
    \<and> (\<forall>cmd \<in> set (issued E st).
          \<exists>c \<in> set (cluster st). \<not> protected c \<and> old_names cmd = [nodeClaimName c])
    \<and> (distinct (map nodeClaimName (cluster st)) \<longrightarrow> \<not> in_flight (issued E st) n)
    \<and> n \<in> set (cluster (disruption_pass E st))
    \<and> ((\<forall>x \<in> set (cluster st). protected x)
          \<longrightarrow> cluster (disruption_pass E st) = cluster st)"
proof -
  note i = issued_commands [of E st]
  have c: "cluster (Engine_Reconcile E st) = cluster st"
    by (simp add: Engine_Reconcile_def)
  have names: "\<not> in_flight (issued E st) n" if d: "distinct (map nodeClaimName (cluster st))"
  proof
    assume "in_flight (issued E st) n"
    then obtain cmd where cmd: "cmd \<in> set (issued E st)" "nodeClaimName n \<in> set (old_names cmd)"
      by (auto simp: in_flight_def list_ex_iff)
    then obtain x where x: "x \<in> set (cluster st)" "\<not> protected x"
        "old_names cmd = [nodeClaimName x]"
      using i by blast
    have "x = n"
      using same_name_same_node [OF d x(1) assms(1)] cmd(2) x(3) by simp
    then show False
      using x(2) assms(2) by simp
  qed
  have k: "n \<in> set (cluster (disruption_pass E st))"
    using drain_keeps_protected [OF _ assms(2)] assms(1) c
    by (simp add: disruption_pass_def Let_def)
  have u: "cluster (disruption_pass E st) = cluster st" if "\<forall>x \<in> set (cluster st). protected x"
    using that c by (simp add: disruption_pass_def Let_def drain_all_protected)
  from i names k u show ?thesis by blast
qed

theorem protected_node_never_disrupted_witness:
  "protected annotated_node \<and> protected hosting_node
   \<and> \<not> in_flight (issued (drift_engine True ReachedInitialized)
           \<lparr>cluster = [annotated_node, hosting_node],
            queue = [Delete [candidate_of hosting_node]]\<rparr>) hosting_node
   \<and> hosting_node \<in> set (cluster (disruption_pass (drift_engine True ReachedInitialized)
           \<lparr>cluster = [annotated_node, hosting_node],
            queue = [Delete [candidate_of hosting_node]]\<rparr>))
   \<and> cluster (disruption_pass (drift_engine True ReachedInitialized)
           \<lparr>cluster = [annotated_node, hosting_node],
            queue = [Delete [candidate_of hosting_node]]\<rparr>)
       = [annotated_node, hosting_node]"
proof -
  have p: "protected annotated_node" "protected hosting_node"
    by (simp_all add: annotated_node_def hosting_node_def state_node_def
      protected_def do_not_disrupt_def hosts_do_not_disrupt_pod_def
      DoNotDisruptAnnotationKey_def)
  have d: "distinct (map nodeClaimName (cluster \<lparr>cluster = [annotated_node, hosting_node],
            queue = [Delete [candidate_of hosting_node]]\<rparr>))"
    by (simp add: annotated_node_def hosting_node_def state_node_def)
  have m: "hosting_node \<in> set (cluster \<lparr>cluster = [annotated_node, hosting_node],
            queue = [Delete [candidate_of hosting_node]]\<rparr>)"
    by simp
  have a: "\<forall>x \<in> set (cluster \<lparr>cluster = [annotated_node, hosting_node],
            queue = [Delete [candidate_of hosting_node]]\<rparr>). protected x"
    using p by simp
  show ?thesis
    using protected_node_never_disrupted [OF m p(2), of "drift_engine True ReachedInitialized"]
      p d a
    by (simp add: in_flight_def)
qed

text \<open>
  C1 as stated fails in its last part: in a cluster of an annotated node and an empty
  drifted node, the pass deletes the drifted one, so the set of node-claims and nodes
  changes although a protected node is present.
\<close>

theorem protected_node_set_unchanged_counterexample:
  "protected annotated_node
   \<and> map nodeClaimName (cluster \<lparr>cluster = [annotated_node, empty_drifted_node], queue = []\<rparr>)
       = [''annotated'', ''drifted'']
   \<and> map nodeClaimName (cluster (disruption_pass (drift_engine True ReachedInitialized)
           \<lparr>cluster = [annotated_node, empty_drifted_node], queue = []\<rparr>))
       = [''annotated'']"
  by (simp add: annotated_node_def empty_drifted_node_def state_node_def drift_engine_def
      protected_def disruption_pass_def Engine_Reconcile_def methods_def candidates_def
      eligible_def method_selects_def command_for_def candidate_of_def in_flight_def
      old_names_def old_candidates_def do_not_disrupt_def hosts_do_not_disrupt_pod_def
      DoNotDisruptAnnotationKey_def execute_def still_valid_def candidate_stands_def
      mark_for_deletion_def untaint_def delete_node_claims_def new_node_def
      remaining_replacements_def)

text \<open>
  C7. With the Drift feature gate off the drift method has no candidates, whatever the
  Drifted conditions are, and adds no command to the queue; and when no other method
  is due for any node-claim, a pass leaves cluster and queue as they were: no
  node-claim is deleted and none created.
\<close>

theorem drift_gate_off_ignores_drifted:
  assumes "\<not> driftGate E"
  shows "candidates E Drift cl = []
    \<and> method_commands E Drift cl q (candidates E Drift cl) = q
    \<and> ((\<forall>m n. \<not> due E m n) \<longrightarrow>
          disruption_pass E \<lparr>cluster = cl, queue = []\<rparr> = \<lparr>cluster = cl, queue = []\<rparr>)"
proof -
  have d: "candidates E Drift cl = []"
    using assms by (simp add: candidates_def method_selects_def)
  have n: "candidates E m cl = []" if "\<forall>m n. \<not> due E m n" for m
    using assms that by (cases m) (simp_all add: candidates_def method_selects_def)
  show ?thesis
    using d n by (simp add: disruption_pass_def Engine_Reconcile_def methods_def Let_def)
qed

theorem drift_gate_off_ignores_drifted_witness:
  "\<not> driftGate (drift_engine False ReachedInitialized)
   \<and> drifted busy_drifted_node
   \<and> candidates (drift_engine False ReachedInitialized) Drift [busy_drifted_node, empty_drifted_node] = []
   \<and> disruption_pass (drift_engine False ReachedInitialized)
        \<lparr>cluster = [busy_drifted_node, empty_drifted_node], queue = []\<rparr>
       = \<lparr>cluster = [busy_drifted_node, empty_drifted_node], queue = []\<rparr>
   \<and> map nodeClaimName (cluster (disruption_pass (drift_engine True ReachedInitialized)
        \<lparr>cluster = [busy_drifted_node, empty_drifted_node], queue = []\<rparr>))
       = [''old-replacement'']"
proof -
  have g: "\<not> driftGate (drift_engine False ReachedInitialized)"
    by (simp add: drift_engine_def)
  have a: "\<forall>m n. \<not> due (drift_engine False ReachedInitialized) m n"
    by (simp add: drift_engine_def)
  have on: "map nodeClaimName (cluster (disruption_pass (drift_engine True ReachedInitialized)
        \<lparr>cluster = [busy_drifted_node, empty_drifted_node], queue = []\<rparr>))
       = [''old-replacement'']"
    by (simp add: busy_drifted_node_def empty_drifted_node_def state_node_def drift_engine_def
      protected_def disruption_pass_def Engine_Reconcile_def methods_def candidates_def
      eligible_def method_selects_def command_for_def candidate_of_def in_flight_def
      old_names_def old_candidates_def do_not_disrupt_def hosts_do_not_disrupt_pod_def
      DoNotDisruptAnnotationKey_def execute_def still_valid_def candidate_stands_def
      mark_for_deletion_def untaint_def delete_node_claims_def new_node_def
      remaining_replacements_def)
  show ?thesis
    using drift_gate_off_ignores_drifted [OF g, of "[busy_drifted_node, empty_drifted_node]" "[]"] a g on
    by (simp add: busy_drifted_node_def state_node_def)
qed

end
